theory Spec2Isabelle
  imports Complex_Main "HOL-Library.Multiset" "HOL-Library.AList"
begin

section \<open>Values of the platform\<close>

text \<open>
  The ledger code of \<^verbatim>\<open>App.tsx\<close> works on JavaScript numbers, strings, arrays and
  \<^verbatim>\<open>Date\<close> objects. Money is modelled by exact real numbers: amounts are finite, and the
  rounding of binary floating point in sums is not represented. An instant is its
  \<^verbatim>\<open>getTime()\<close> value in milliseconds (no invalid dates), a string its list of 8-bit
  characters.
\<close>

type_synonym time = int



section \<open>Data model\<close>

text \<open>
  The \<^verbatim>\<open>Transaction\<close> interface. The objects built by \<^verbatim>\<open>loadTransactions\<close> carry one
  more property, \<^verbatim>\<open>source\<close>; the ones built by the insert operations do not.
\<close>

datatype source = manual | mercadopago

record transaction =
  tx_id :: string
  tx_icon :: string
  tx_label :: string
  tx_amount :: real
  tx_date :: "time option"
  tx_source :: "source option"

record category =
  cat_id :: string
  cat_label :: string
  cat_value :: int
  cat_color :: string
  cat_icon :: string


definition categories :: "category list" where
  "categories =
    [\<lparr>cat_id = ''utilities-bills'', cat_label = ''Utilities & Bills'', cat_value = 35,
       cat_color = ''#1f6f4d'', cat_icon = ''Zap''\<rparr>,
     \<lparr>cat_id = ''food-dining'', cat_label = ''Food & Dining'', cat_value = 19,
       cat_color = ''#2d9b6e'', cat_icon = ''Coffee''\<rparr>,
     \<lparr>cat_id = ''transportation'', cat_label = ''Transportation'', cat_value = 10,
       cat_color = ''#4db88a'', cat_icon = ''Truck''\<rparr>,
     \<lparr>cat_id = ''shopping-clothing'', cat_label = ''Shopping & Clothing'', cat_value = 0,
       cat_color = ''#7fcba4'', cat_icon = ''ShoppingBag''\<rparr>,
     \<lparr>cat_id = ''health-wellness'', cat_label = ''Health & Wellness'', cat_value = 0,
       cat_color = ''#a8d9be'', cat_icon = ''Heart''\<rparr>,
     \<lparr>cat_id = ''recreation-entertainment'', cat_label = ''Recreation & Entertainment'',
       cat_value = 7, cat_color = ''#3a8f5c'', cat_icon = ''Film''\<rparr>,
     \<lparr>cat_id = ''financial-obligations'', cat_label = ''Financial Obligations'', cat_value = 0,
       cat_color = ''#165c3e'', cat_icon = ''CreditCard''\<rparr>,
     \<lparr>cat_id = ''savings-investments'', cat_label = ''Savings & Investments'', cat_value = 0,
       cat_color = ''#0d4a2f'', cat_icon = ''TrendingUp''\<rparr>,
     \<lparr>cat_id = ''miscellaneous-other'', cat_label = ''Miscellaneous / Other'', cat_value = 29,
       cat_color = ''#b5dcc5'', cat_icon = ''MoreHorizontal''\<rparr>]"

section \<open>Month-over-month comparison\<close>





section \<open>Budget progress\<close>







section \<open>Day-of-week pattern\<close>

text \<open>
  \<^verbatim>\<open>Date.prototype.getDay\<close> is the weekday of the local time: the day number of
  \<open>t + LocalTZA t\<close> counted from Thursday, 1 January 1970. The zone offset in
  milliseconds is the parameter \<open>localTZA\<close>. The result is one of \<open>0..6\<close>
  (\<open>getDay_less_7\<close>), so \<^verbatim>\<open>dayData[dayIndex]\<close> is always one of the seven slots.
\<close>

definition getDay :: "(time \<Rightarrow> int) \<Rightarrow> time \<Rightarrow> nat" where
  "getDay localTZA t = nat (((t + localTZA t) div 86400000 + 4) mod 7)"

record day_slot =
  slot_total :: real
  slot_count :: nat



definition add_to_day :: "(time \<Rightarrow> int) \<Rightarrow> transaction \<Rightarrow> day_slot list \<Rightarrow> day_slot list" where
  "add_to_day localTZA t dayData =
    (case tx_date t of
       None \<Rightarrow> dayData
     | Some txDate \<Rightarrow>
         (let dayIndex = getDay localTZA txDate;
              slot = dayData ! dayIndex
          in dayData[dayIndex := \<lparr>slot_total = slot_total slot + \<bar>tx_amount t\<bar>,
                                  slot_count = slot_count slot + 1\<rparr>]))"



section \<open>Strings and arrays of the platform\<close>

text \<open>
  \<^verbatim>\<open>s.includes(sub)\<close>, \<^verbatim>\<open>s.toLowerCase()\<close> and \<^verbatim>\<open>s.trim()\<close> on 8-bit strings: letters
  and white space are the ASCII ones (tab, line feed, vertical tab, form feed, carriage
  return, space).
\<close>

fun str_includes :: "string \<Rightarrow> string \<Rightarrow> bool" where
  "str_includes [] sub = (sub = [])"
| "str_includes (c # s) sub = (take (length sub) (c # s) = sub \<or> str_includes s sub)"

definition lower_char :: "char \<Rightarrow> char" where
  "lower_char c = (let n = of_char c :: nat in if 65 \<le> n \<and> n \<le> 90 then char_of (n + 32) else c)"

definition upper_char :: "char \<Rightarrow> char" where
  "upper_char c = (let n = of_char c :: nat in if 97 \<le> n \<and> n \<le> 122 then char_of (n - 32) else c)"

definition toLowerCase :: "string \<Rightarrow> string" where
  "toLowerCase s = map lower_char s"

definition is_space :: "char \<Rightarrow> bool" where
  "is_space c = (let n = of_char c :: nat in n = 32 \<or> (9 \<le> n \<and> n \<le> 13))"

definition trim :: "string \<Rightarrow> string" where
  "trim s = rev (dropWhile is_space (rev (dropWhile is_space s)))"

text \<open>The truth value of a string that may be \<^verbatim>\<open>null\<close>: \<^verbatim>\<open>null\<close> and \<^verbatim>\<open>''\<close> are falsy.\<close>

definition truthy :: "string option \<Rightarrow> bool" where
  "truthy x = (case x of None \<Rightarrow> False | Some s \<Rightarrow> s \<noteq> [])"

text \<open>\<^verbatim>\<open>x || d\<close> for a string \<open>x\<close> that may be \<^verbatim>\<open>null\<close>.\<close>

definition or_else :: "string option \<Rightarrow> string \<Rightarrow> string" where
  "or_else x d = (case x of None \<Rightarrow> d | Some s \<Rightarrow> if s = [] then d else s)"

text \<open>\<^verbatim>\<open>String(n)\<close> for an integer: its decimal digits, a minus sign first when negative.\<close>

fun decimal :: "nat \<Rightarrow> string" where
  "decimal n =
    (if n < 10 then [''0123456789'' ! n] else decimal (n div 10) @ [''0123456789'' ! (n mod 10)])"

declare decimal.simps [simp del]

definition String_of_int :: "int \<Rightarrow> string" where
  "String_of_int k = (if k < 0 then CHR ''-'' # decimal (nat (- k)) else decimal (nat k))"

text \<open>
  \<^verbatim>\<open>Array.prototype.sort\<close> with a comparator is stable: \<open>a\<close> stays before \<open>b\<close> unless the
  comparator is positive on \<open>(a, b)\<close>. Here by insertion from the right.
\<close>

fun insert_by :: "('a \<Rightarrow> 'a \<Rightarrow> 'b::{zero,linorder}) \<Rightarrow> 'a \<Rightarrow> 'a list \<Rightarrow> 'a list" where
  "insert_by cmp x [] = [x]"
| "insert_by cmp x (y # ys) = (if cmp x y \<le> 0 then x # y # ys else y # insert_by cmp x ys)"

definition array_sort :: "('a \<Rightarrow> 'a \<Rightarrow> 'b::{zero,linorder}) \<Rightarrow> 'a list \<Rightarrow> 'a list" where
  "array_sort cmp xs = foldr (insert_by cmp) xs []"

section \<open>Remote store\<close>

text \<open>
  The two collections of the remote store, as the queries of \<^verbatim>\<open>App.tsx\<close> read and write
  them. A row's \<^verbatim>\<open>id\<close> is its rendering as a string, a timestamp column the instant
  \<^verbatim>\<open>new Date\<close> parses from it, \<^verbatim>\<open>Number(row.amount)\<close> the amount. A call either resolves
  with data, resolves with an error object, or rejects.
\<close>

datatype error = Error string

datatype 'a response = Data 'a | ErrorResult error | Rejected error

record expense_row =
  er_id :: string
  er_label :: string
  er_amount :: real
  er_icon :: "string option"
  er_transaction_at :: "time option"

record mp_row =
  mp_id :: string
  mp_email_subject :: "string option"
  mp_description :: "string option"
  mp_amount :: real
  mp_type :: "string option"
  mp_category :: "string option"
  mp_received_at :: "time option"

record expense_insert =
  ei_label :: string
  ei_amount :: real
  ei_icon :: string
  ei_category_id :: "string option"
  ei_transaction_at :: "time option"

text \<open>
  \<open>ready\<close> stands for \<^verbatim>\<open>isSupabaseConfigured && supabase && user\<close>; the two selects take
  the bounds of \<^verbatim>\<open>.range(from, to)\<close>.
\<close>

record backend =
  ready :: bool
  select_expenses :: "nat \<Rightarrow> nat \<Rightarrow> expense_row list response"
  select_transactions :: "nat \<Rightarrow> nat \<Rightarrow> mp_row list response"
  insert_expense :: "expense_insert \<Rightarrow> expense_row response"
  insert_expenses :: "expense_insert list \<Rightarrow> expense_row list response"

section \<open>Application state\<close>

record pending_item =
  pi_id :: string
  pi_description :: string
  pi_price :: real
  pi_date :: "string option"
  pi_category :: "string option"
  pi_categoryIcon :: "string option"

record app_state =
  transactionsList :: "transaction list"
  hasMoreTransactions :: bool
  isLoadingMore :: bool
  pendingItems :: "pending_item list"
  isOcrModalVisible :: bool
  manualDescription :: string
  manualAmount :: string
  manualCategoryId :: "string option"
  manualDate :: time
  isCategoryPickerOpen :: bool
  isDatePickerVisible :: bool
  isManualModalVisible :: bool

definition ITEMS_PER_PAGE :: nat where
  "ITEMS_PER_PAGE = 25"

section \<open>Loading and merging\<close>

record category_info =
  ci_icon :: string
  ci_label :: string

record type_label =
  tl_label :: string
  tl_shortLabel :: string

text \<open>
  The two literal tables are read by key. A key that names a property every object
  inherits (\<^verbatim>\<open>constructor\<close>, \<^verbatim>\<open>toString\<close>, ...) is not a category or a transaction type
  of the store and is not represented.
\<close>

definition categoryMapping :: "(string \<times> category_info) list" where
  "categoryMapping =
    [(''utilities-bills'', \<lparr>ci_icon = ''Zap'', ci_label = ''Utilities & Bills''\<rparr>),
     (''food-dining'', \<lparr>ci_icon = ''Coffee'', ci_label = ''Food & Dining''\<rparr>),
     (''transportation'', \<lparr>ci_icon = ''Truck'', ci_label = ''Transportation''\<rparr>),
     (''shopping-clothing'', \<lparr>ci_icon = ''ShoppingBag'', ci_label = ''Shopping & Clothing''\<rparr>),
     (''health-wellness'', \<lparr>ci_icon = ''Heart'', ci_label = ''Health & Wellness''\<rparr>),
     (''recreation-entertainment'',
        \<lparr>ci_icon = ''Film'', ci_label = ''Recreation & Entertainment''\<rparr>),
     (''financial-obligations'', \<lparr>ci_icon = ''CreditCard'', ci_label = ''Financial Obligations''\<rparr>),
     (''savings-investments'', \<lparr>ci_icon = ''TrendingUp'', ci_label = ''Savings & Investments''\<rparr>),
     (''miscellaneous-other'', \<lparr>ci_icon = ''MoreHorizontal'', ci_label = ''Miscellaneous / Other''\<rparr>)]"

definition transactionTypeLabels :: "(string \<times> type_label) list" where
  "transactionTypeLabels =
    [(''transfer_sent'', \<lparr>tl_label = ''Transferencia enviada'', tl_shortLabel = ''Enviado''\<rparr>),
     (''transfer_received'', \<lparr>tl_label = ''Transferencia recibida'', tl_shortLabel = ''Recibido''\<rparr>),
     (''payment_sent'', \<lparr>tl_label = ''Pago realizado'', tl_shortLabel = ''Pago''\<rparr>),
     (''payment_received'', \<lparr>tl_label = ''Pago recibido'', tl_shortLabel = ''Cobro''\<rparr>),
     (''deposit'', \<lparr>tl_label = ''Dep'' @ [CHR 0xC3, CHR 0xB3] @ ''sito'',
                    tl_shortLabel = ''Dep'' @ [CHR 0xC3, CHR 0xB3] @ ''sito''\<rparr>),
     (''withdrawal'', \<lparr>tl_label = ''Retiro'', tl_shortLabel = ''Retiro''\<rparr>),
     (''refund_received'', \<lparr>tl_label = ''Reembolso recibido'', tl_shortLabel = ''Reembolso''\<rparr>),
     (''refund_sent'', \<lparr>tl_label = ''Reembolso enviado'', tl_shortLabel = ''Reembolso''\<rparr>)]"

text \<open>
  \<^verbatim>\<open>normalizeEmailSubject\<close>: one forwarding or reply prefix and the white space after it
  are removed, then one leading \<^verbatim>\<open>Tu \<close> or \<^verbatim>\<open>Your \<close> (both without regard to case), the
  rest is trimmed and its first letter capitalised; an empty result is \<^verbatim>\<open>null\<close>.
\<close>

definition strip_prefix_ci :: "string list \<Rightarrow> string \<Rightarrow> string option" where
  "strip_prefix_ci alternatives s =
    (case find (\<lambda>p. toLowerCase (take (length p) s) = toLowerCase p) alternatives of
       None \<Rightarrow> None
     | Some p \<Rightarrow> Some (drop (length p) s))"

definition normalizeEmailSubject :: "string option \<Rightarrow> string option" where
  "normalizeEmailSubject subject =
    (case subject of
       None \<Rightarrow> None
     | Some s \<Rightarrow>
         if s = [] then None
         else
           (let clean = (case strip_prefix_ci [''Fwd:'', ''Re:'', ''FW:'', ''fw:'', ''re:''] s of
                           None \<Rightarrow> s
                         | Some rest \<Rightarrow> dropWhile is_space rest);
                clean = (case strip_prefix_ci [''Tu '', ''Your ''] clean of
                           None \<Rightarrow> clean
                         | Some rest \<Rightarrow> rest);
                clean = trim clean;
                clean = (case clean of [] \<Rightarrow> [] | c # cs \<Rightarrow> upper_char c # cs)
            in if clean = [] then None else Some clean))"

definition mapExpense :: "expense_row \<Rightarrow> transaction" where
  "mapExpense row =
    \<lparr>tx_id = er_id row,
     tx_icon = or_else (er_icon row) ''ShoppingBag'',
     tx_label = er_label row,
     tx_amount = er_amount row,
     tx_date = er_transaction_at row,
     tx_source = Some manual\<rparr>"

definition row_category :: "mp_row \<Rightarrow> category_info option" where
  "row_category row =
    (case mp_category row of
       None \<Rightarrow> None
     | Some c \<Rightarrow> if c = [] then None else map_of categoryMapping c)"

definition row_description :: "mp_row \<Rightarrow> string option" where
  "row_description row =
    (case mp_description row of
       None \<Rightarrow> None
     | Some d \<Rightarrow> if d = [] \<or> trim d = [] then None else Some (trim d))"

definition row_type_label :: "mp_row \<Rightarrow> type_label option" where
  "row_type_label row =
    (case mp_type row of
       None \<Rightarrow> None
     | Some ty \<Rightarrow> if ty = [] then None else map_of transactionTypeLabels ty)"

definition type_includes :: "mp_row \<Rightarrow> string \<Rightarrow> bool" where
  "type_includes row word = (case mp_type row of None \<Rightarrow> False | Some ty \<Rightarrow> str_includes ty word)"

definition subject_includes :: "mp_row \<Rightarrow> string \<Rightarrow> bool" where
  "subject_includes row word =
    (case mp_email_subject row of None \<Rightarrow> False | Some s \<Rightarrow> str_includes (toLowerCase s) word)"

definition isOutgoing :: "mp_row \<Rightarrow> bool" where
  "isOutgoing row =
    (type_includes row ''sent'' \<or> type_includes row ''payment'' \<or> type_includes row ''withdrawal''
     \<or> subject_includes row ''enviada'' \<or> subject_includes row ''pagaste'')"

definition mapMp :: "mp_row \<Rightarrow> transaction" where
  "mapMp row =
    (let icon =
           (case row_category row of
              Some info \<Rightarrow> ci_icon info
            | None \<Rightarrow>
                if type_includes row ''sent'' \<or> type_includes row ''payment'' then ''ArrowUpRight''
                else if type_includes row ''received'' \<or> type_includes row ''deposit''
                then ''ArrowDownLeft''
                else ''DollarSign'');
         label =
           (case row_description row of
              Some d \<Rightarrow> d
            | None \<Rightarrow>
                (case row_category row of
                   Some info \<Rightarrow> ci_label info
                 | None \<Rightarrow>
                     (case row_type_label row of
                        Some entry \<Rightarrow> tl_label entry
                      | None \<Rightarrow>
                          if truthy (mp_email_subject row)
                          then (case normalizeEmailSubject (mp_email_subject row) of
                                  Some s \<Rightarrow> s
                                | None \<Rightarrow> ''Mercado Pago'')
                          else ''Mercado Pago'')));
         amount = (if isOutgoing row then - \<bar>mp_amount row\<bar> else \<bar>mp_amount row\<bar>)
     in \<lparr>tx_id = ''mp_'' @ mp_id row,
          tx_icon = icon,
          tx_label = label,
          tx_amount = amount,
          tx_date = mp_received_at row,
          tx_source = Some mercadopago\<rparr>)"

text \<open>The comparator of every sort of the ledger: newest first, an undated entry at time 0.\<close>

definition date_time :: "transaction \<Rightarrow> time" where
  "date_time t = (case tx_date t of None \<Rightarrow> 0 | Some d \<Rightarrow> d)"

definition by_date_desc :: "transaction \<Rightarrow> transaction \<Rightarrow> int" where
  "by_date_desc a b = date_time b - date_time a"

text \<open>
  \<^verbatim>\<open>loadTransactions(reset)\<close>. Nothing happens without a configured store and a user. An
  error or a rejection of the first query, or a rejection of the second, ends in the
  \<^verbatim>\<open>catch\<close> block with the state as it was; an error object of the second query is logged
  and its page is empty.
\<close>

definition loadTransactions :: "backend \<Rightarrow> bool \<Rightarrow> app_state \<Rightarrow> app_state" where
  "loadTransactions b reset st =
    (if \<not> ready b then st
     else
       let offset = (if reset then 0 else length (transactionsList st)) in
       case select_expenses b offset (offset + ITEMS_PER_PAGE - 1) of
         ErrorResult e \<Rightarrow> st
       | Rejected e \<Rightarrow> st
       | Data expensesData \<Rightarrow>
           (case select_transactions b offset (offset + ITEMS_PER_PAGE - 1) of
              Rejected e \<Rightarrow> st
            | mpResult \<Rightarrow>
                let mpData = (case mpResult of Data rows \<Rightarrow> rows | _ \<Rightarrow> []);
                    mappedExpenses = map mapExpense expensesData;
                    mappedMp = map mapMp mpData;
                    allTransactions = array_sort by_date_desc (mappedExpenses @ mappedMp);
                    st = st\<lparr>hasMoreTransactions :=
                              (length mappedExpenses = ITEMS_PER_PAGE
                               \<or> length mappedMp = ITEMS_PER_PAGE)\<rparr>
                in if reset then st\<lparr>transactionsList := allTransactions\<rparr>
                   else
                     let prev = transactionsList st;
                         existingIds = map tx_id prev;
                         newItems = filter (\<lambda>t. tx_id t \<notin> set existingIds) allTransactions
                     in st\<lparr>transactionsList := array_sort by_date_desc (prev @ newItems)\<rparr>))"

definition loadMoreTransactions :: "backend \<Rightarrow> app_state \<Rightarrow> app_state" where
  "loadMoreTransactions b st =
    (if isLoadingMore st \<or> \<not> hasMoreTransactions st then st
     else (loadTransactions b False (st\<lparr>isLoadingMore := True\<rparr>))\<lparr>isLoadingMore := False\<rparr>)"

text \<open>
  A call of \<^verbatim>\<open>loadTransactions\<close> merges when it reaches the two \<^verbatim>\<open>setState\<close> calls:
  the store is ready, the first query resolved with data and the second did not reject.
  \<open>page_expenses\<close> and \<open>page_mp\<close> are then the rows the two sources returned.
\<close>

definition page_offset :: "bool \<Rightarrow> app_state \<Rightarrow> nat" where
  "page_offset reset st = (if reset then 0 else length (transactionsList st))"

definition page_expenses :: "backend \<Rightarrow> bool \<Rightarrow> app_state \<Rightarrow> expense_row list" where
  "page_expenses b reset st =
    (case select_expenses b (page_offset reset st) (page_offset reset st + ITEMS_PER_PAGE - 1) of
       Data rows \<Rightarrow> rows | _ \<Rightarrow> [])"

definition page_mp :: "backend \<Rightarrow> bool \<Rightarrow> app_state \<Rightarrow> mp_row list" where
  "page_mp b reset st =
    (case select_transactions b (page_offset reset st) (page_offset reset st + ITEMS_PER_PAGE - 1) of
       Data rows \<Rightarrow> rows | _ \<Rightarrow> [])"

definition merges :: "backend \<Rightarrow> bool \<Rightarrow> app_state \<Rightarrow> bool" where
  "merges b reset st =
    (ready b \<and>
     (case select_expenses b (page_offset reset st) (page_offset reset st + ITEMS_PER_PAGE - 1) of
        Data rows \<Rightarrow>
          (case select_transactions b (page_offset reset st)
                  (page_offset reset st + ITEMS_PER_PAGE - 1) of
             Rejected e \<Rightarrow> False | _ \<Rightarrow> True)
      | _ \<Rightarrow> False))"

section \<open>Example data\<close>

definition example_expenses :: "expense_row list" where
  "example_expenses =
    [\<lparr>er_id = ''1'', er_label = ''Groceries'', er_amount = - 50, er_icon = Some ''Coffee'',
      er_transaction_at = Some 2000\<rparr>]"

definition example_messages :: "mp_row list" where
  "example_messages =
    [\<lparr>mp_id = ''1'', mp_email_subject = None, mp_description = Some ''Cafe'', mp_amount = 10,
      mp_type = Some ''payment_sent'', mp_category = None, mp_received_at = Some 3000\<rparr>]"

definition example_backend :: backend where
  "example_backend =
    \<lparr>ready = True,
     select_expenses = (\<lambda>from to. Data (take (to + 1 - from) (drop from example_expenses))),
     select_transactions = (\<lambda>from to. Data (take (to + 1 - from) (drop from example_messages))),
     insert_expense = (\<lambda>row. ErrorResult (Error ''offline'')),
     insert_expenses = (\<lambda>rows. ErrorResult (Error ''offline''))\<rparr>"

text \<open>A store whose first query fails.\<close>

definition failing_backend :: backend where
  "failing_backend =
    \<lparr>ready = True,
     select_expenses = (\<lambda>from to. ErrorResult (Error ''network'')),
     select_transactions = (\<lambda>from to. Data (take (to + 1 - from) (drop from example_messages))),
     insert_expense = (\<lambda>row. ErrorResult (Error ''network'')),
     insert_expenses = (\<lambda>rows. ErrorResult (Error ''network''))\<rparr>"

text \<open>A store whose first collection never ends and whose second holds ten rows.\<close>

definition paged_backend :: backend where
  "paged_backend =
    \<lparr>ready = True,
     select_expenses =
       (\<lambda>from to. Data (map (\<lambda>i. \<lparr>er_id = decimal i, er_label = ''Groceries'', er_amount = - 50,
                                      er_icon = None, er_transaction_at = None\<rparr>)
                             [from..<to + 1])),
     select_transactions =
       (\<lambda>from to. Data (map (\<lambda>i. \<lparr>mp_id = decimal i, mp_email_subject = None,
                                      mp_description = None, mp_amount = 10, mp_type = None,
                                      mp_category = None, mp_received_at = None\<rparr>)
                             [from..<min (to + 1) 10])),
     insert_expense = (\<lambda>row. ErrorResult (Error ''offline'')),
     insert_expenses = (\<lambda>rows. ErrorResult (Error ''offline''))\<rparr>"

definition example_state :: app_state where
  "example_state =
    \<lparr>transactionsList = [], hasMoreTransactions = True, isLoadingMore = False,
     pendingItems = [], isOcrModalVisible = False, manualDescription = [], manualAmount = [],
     manualCategoryId = None, manualDate = 0, isCategoryPickerOpen = False,
     isDatePickerVisible = False, isManualModalVisible = False\<rparr>"

section \<open>Inserting\<close>

text \<open>
  What the insert operations take from the platform: \<^verbatim>\<open>Number(s)\<close> for the text of the
  amount field, the clock and the parsing of a date string. \<open>Date_now p k\<close> is the reading
  of the clock (\<^verbatim>\<open>Date.now()\<close>, \<^verbatim>\<open>new Date()\<close>) while the \<open>k\<close>-th element of an array is
  mapped, or at the \<open>k\<close>-th step of an operation that maps none.
\<close>

datatype js_number = Finite real | NaN | Infinity | NegInfinity

fun isFinite :: "js_number \<Rightarrow> bool" where
  "isFinite (Finite x) = True"
| "isFinite _ = False"

record platform =
  Number :: "string \<Rightarrow> js_number"
  Date_now :: "nat \<Rightarrow> time"
  Date_parse :: "string \<Rightarrow> time"

text \<open>The sort every insert operation applies to the extended ledger.\<close>

definition merged_sort :: "transaction list \<Rightarrow> transaction list" where
  "merged_sort merged = array_sort by_date_desc merged"

text \<open>\<^verbatim>\<open>addManualExpense\<close>: the object sent to the store, the item of \<^verbatim>\<open>fallbackInsert\<close>, the
  item built from the stored row, and the operation.\<close>

definition manual_categoryIcon :: "app_state \<Rightarrow> string" where
  "manual_categoryIcon st =
    (case manualCategoryId st of
       None \<Rightarrow> ''ShoppingBag''
     | Some cid \<Rightarrow>
         (case find (\<lambda>c. cat_id c = cid) categories of
            None \<Rightarrow> ''ShoppingBag''
          | Some selectedCategory \<Rightarrow> or_else (Some (cat_icon selectedCategory)) ''ShoppingBag''))"

definition manual_label :: "app_state \<Rightarrow> string" where
  "manual_label st = or_else (Some (trim (manualDescription st))) ''Transaction''"

definition manual_insert :: "app_state \<Rightarrow> real \<Rightarrow> expense_insert" where
  "manual_insert st amountNumber =
    \<lparr>ei_label = manual_label st,
     ei_amount = - \<bar>amountNumber\<bar>,
     ei_icon = manual_categoryIcon st,
     ei_category_id = (if truthy (manualCategoryId st) then manualCategoryId st else None),
     ei_transaction_at = Some (manualDate st)\<rparr>"

definition manual_fallback_item :: "platform \<Rightarrow> app_state \<Rightarrow> real \<Rightarrow> transaction" where
  "manual_fallback_item p st amountNumber =
    \<lparr>tx_id = String_of_int (Date_now p 0),
     tx_icon = manual_categoryIcon st,
     tx_label = manual_label st,
     tx_amount = - \<bar>amountNumber\<bar>,
     tx_date = Some (manualDate st),
     tx_source = None\<rparr>"

definition manual_saved_item :: "app_state \<Rightarrow> expense_row \<Rightarrow> transaction" where
  "manual_saved_item st data =
    \<lparr>tx_id = er_id data,
     tx_icon = or_else (er_icon data) (manual_categoryIcon st),
     tx_label = er_label data,
     tx_amount = er_amount data,
     tx_date = (case er_transaction_at data of None \<Rightarrow> Some (manualDate st) | Some d \<Rightarrow> Some d),
     tx_source = None\<rparr>"

definition manual_new_item :: "platform \<Rightarrow> backend \<Rightarrow> app_state \<Rightarrow> real \<Rightarrow> transaction" where
  "manual_new_item p b st amountNumber =
    (if ready b
     then (case insert_expense b (manual_insert st amountNumber) of
             Data data \<Rightarrow> manual_saved_item st data
           | _ \<Rightarrow> manual_fallback_item p st amountNumber)
     else manual_fallback_item p st amountNumber)"

definition addManualExpense :: "platform \<Rightarrow> backend \<Rightarrow> app_state \<Rightarrow> app_state" where
  "addManualExpense p b st =
    (let amountNumber = Number p (manualAmount st) in
     if \<not> isFinite amountNumber then st
     else
       case amountNumber of
         Finite x \<Rightarrow>
           st\<lparr>transactionsList := merged_sort (manual_new_item p b st x # transactionsList st),
              manualDescription := [],
              manualAmount := [],
              manualCategoryId := None,
              manualDate := Date_now p 1,
              isCategoryPickerOpen := False,
              isDatePickerVisible := False,
              isManualModalVisible := False\<rparr>
       | _ \<Rightarrow> st)"

text \<open>\<^verbatim>\<open>addOcrExpenses\<close>: the local transactions, the rows sent to the store, the
  transactions built from the stored rows, and the operation.\<close>

definition ocr_date :: "platform \<Rightarrow> nat \<Rightarrow> pending_item \<Rightarrow> time" where
  "ocr_date p k item =
    (case pi_date item of
       None \<Rightarrow> Date_now p k
     | Some d \<Rightarrow> if d = [] then Date_now p k else Date_parse p (d @ ''T12:00:00''))"

definition newTransactions :: "platform \<Rightarrow> app_state \<Rightarrow> transaction list" where
  "newTransactions p st =
    map (\<lambda>(k, item).
          \<lparr>tx_id = String_of_int (Date_now p k) @ ''-'' @ pi_description item,
           tx_icon = or_else (pi_categoryIcon item) ''ShoppingBag'',
           tx_label = pi_description item,
           tx_amount = - \<bar>pi_price item\<bar>,
           tx_date = Some (ocr_date p k item),
           tx_source = None\<rparr>)
      (enumerate 0 (pendingItems st))"

definition inserts :: "platform \<Rightarrow> app_state \<Rightarrow> expense_insert list" where
  "inserts p st =
    map (\<lambda>(k, item).
          \<lparr>ei_label = pi_description item,
           ei_amount = - \<bar>pi_price item\<bar>,
           ei_icon = or_else (pi_categoryIcon item) ''ShoppingBag'',
           ei_category_id = None,
           ei_transaction_at = Some (ocr_date p k item)\<rparr>)
      (enumerate 0 (pendingItems st))"

definition savedTransactions :: "platform \<Rightarrow> expense_row list \<Rightarrow> transaction list" where
  "savedTransactions p data =
    map (\<lambda>(k, row).
          \<lparr>tx_id = er_id row,
           tx_icon = or_else (er_icon row) ''ShoppingBag'',
           tx_label = er_label row,
           tx_amount = er_amount row,
           tx_date = (case er_transaction_at row of None \<Rightarrow> Some (Date_now p k) | Some d \<Rightarrow> Some d),
           tx_source = None\<rparr>)
      (enumerate 0 data)"

definition ocr_new_items :: "platform \<Rightarrow> backend \<Rightarrow> app_state \<Rightarrow> transaction list" where
  "ocr_new_items p b st =
    (if ready b
     then (case insert_expenses b (inserts p st) of
             Data data \<Rightarrow> savedTransactions p data
           | _ \<Rightarrow> newTransactions p st)
     else newTransactions p st)"

definition addOcrExpenses :: "platform \<Rightarrow> backend \<Rightarrow> app_state \<Rightarrow> app_state" where
  "addOcrExpenses p b st =
    st\<lparr>transactionsList := merged_sort (ocr_new_items p b st @ transactionsList st),
       pendingItems := [],
       isOcrModalVisible := False\<rparr>"

text \<open>The store answers an insert with the amounts it was sent, when it is asked.\<close>

definition stored_as_sent :: "backend \<Rightarrow> expense_insert \<Rightarrow> bool" where
  "stored_as_sent b row =
    (if ready b
     then (case insert_expense b row of Data data \<Rightarrow> er_amount data = ei_amount row | _ \<Rightarrow> True)
     else True)"

definition all_stored_as_sent :: "backend \<Rightarrow> expense_insert list \<Rightarrow> bool" where
  "all_stored_as_sent b rows =
    (if ready b
     then (case insert_expenses b rows of
             Data data \<Rightarrow> map er_amount data = map ei_amount rows
           | _ \<Rightarrow> True)
     else True)"

text \<open>The commit falls back to the local items: no store, or the insert failed.\<close>

definition local_fallback :: "platform \<Rightarrow> backend \<Rightarrow> app_state \<Rightarrow> bool" where
  "local_fallback p b st =
    (if ready b
     then (case insert_expenses b (inserts p st) of Data data \<Rightarrow> False | _ \<Rightarrow> True)
     else True)"

text \<open>
  A platform for the examples (its \<open>Number\<close> agrees with \<^verbatim>\<open>Number\<close> on the four strings the
  examples type), and a store that persists what it is sent.
\<close>

definition example_platform :: platform where
  "example_platform =
    \<lparr>Number = (\<lambda>s. if s = ''12.50'' then Finite 12.5
                    else if s = ''0'' then Finite 0
                    else if s = ''Infinity'' then Infinity
                    else NaN),
     Date_now = (\<lambda>k. 1700000000000),
     Date_parse = (\<lambda>s. 1699963200000)\<rparr>"

definition echo_row :: "nat \<Rightarrow> expense_insert \<Rightarrow> expense_row" where
  "echo_row k row =
    \<lparr>er_id = decimal (100 + k), er_label = ei_label row, er_amount = ei_amount row,
     er_icon = Some (ei_icon row), er_transaction_at = ei_transaction_at row\<rparr>"

definition echo_backend :: backend where
  "echo_backend =
    \<lparr>ready = True,
     select_expenses = (\<lambda>from to. Data []),
     select_transactions = (\<lambda>from to. Data []),
     insert_expense = (\<lambda>row. Data (echo_row 0 row)),
     insert_expenses = (\<lambda>rows. Data (map (\<lambda>(k, row). echo_row k row) (enumerate 0 rows)))\<rparr>"

definition coffee :: pending_item where
  "coffee =
    \<lparr>pi_id = ''ocr-1700000000000-0'', pi_description = ''Coffee'', pi_price = 4.5,
     pi_date = None, pi_category = Some ''food-dining'', pi_categoryIcon = Some ''Coffee''\<rparr>"

section \<open>Merchant ranking\<close>


















section \<open>Properties\<close>

subsection \<open>Sums of expenses\<close>








subsection \<open>Month-over-month comparison\<close>



subsection \<open>Budget progress\<close>




subsection \<open>Day-of-week pattern\<close>

lemma getDay_less_7: "getDay localTZA t < 7"
  by (simp add: getDay_def nat_less_iff)

lemma length_add_to_day: "length (add_to_day z t dd) = length dd"
  by (simp add: add_to_day_def Let_def split: option.splits)

lemma length_fold_add_to_day: "length (fold (add_to_day z) xs dd) = length dd"
  by (induction xs arbitrary: dd) (simp_all add: length_add_to_day)











subsection \<open>Sorting\<close>

lemma mset_insert_by: "mset (insert_by cmp x xs) = add_mset x (mset xs)"
  by (induction xs) simp_all

lemma mset_array_sort: "mset (array_sort cmp xs) = mset xs"
  by (induction xs) (simp_all add: array_sort_def mset_insert_by)


lemma length_array_sort: "length (array_sort cmp xs) = length xs"
  using mset_array_sort[of cmp xs] by (metis size_mset)

lemma distinct_map_array_sort: "distinct (map f (array_sort cmp xs)) = distinct (map f xs)"
proof -
  have "mset (map f (array_sort cmp xs)) = mset (map f xs)"
    by (simp add: mset_array_sort)
  then show ?thesis by (metis distinct_count_atmost_1 set_mset_mset)
qed





subsection \<open>Loading and merging\<close>

lemma loadTransactions_merge:
  assumes "merges b reset st"
  shows "loadTransactions b reset st =
    st\<lparr>hasMoreTransactions :=
          (length (page_expenses b reset st) = ITEMS_PER_PAGE
           \<or> length (page_mp b reset st) = ITEMS_PER_PAGE),
       transactionsList :=
         (let allTransactions =
                array_sort by_date_desc
                  (map mapExpense (page_expenses b reset st) @ map mapMp (page_mp b reset st))
          in if reset then allTransactions
             else array_sort by_date_desc
                    (transactionsList st @
                     filter (\<lambda>t. tx_id t \<notin> set (map tx_id (transactionsList st))) allTransactions))\<rparr>"
proof (cases "select_expenses b (page_offset reset st) (page_offset reset st + ITEMS_PER_PAGE - 1)")
  case (Data rows)
  note e = this
  show ?thesis
  proof (cases "select_transactions b (page_offset reset st) (page_offset reset st + ITEMS_PER_PAGE - 1)")
    case (Data mpRows)
    with e assms show ?thesis
      by (cases reset)
        (simp_all add: merges_def loadTransactions_def page_expenses_def page_mp_def
          page_offset_def Let_def)
  next
    case (ErrorResult x)
    with e assms show ?thesis
      by (cases reset)
        (simp_all add: merges_def loadTransactions_def page_expenses_def page_mp_def
          page_offset_def Let_def)
  next
    case (Rejected x)
    with e assms show ?thesis by (simp add: merges_def)
  qed
next
  case (ErrorResult x)
  with assms show ?thesis by (simp add: merges_def)
next
  case (Rejected x)
  with assms show ?thesis by (simp add: merges_def)
qed

lemma loadTransactions_no_merge:
  assumes "\<not> merges b reset st"
  shows "loadTransactions b reset st = st"
proof (cases "select_expenses b (page_offset reset st) (page_offset reset st + ITEMS_PER_PAGE - 1)")
  case (Data rows)
  note e = this
  show ?thesis
  proof (cases "select_transactions b (page_offset reset st) (page_offset reset st + ITEMS_PER_PAGE - 1)")
    case (Data mpRows)
    with e assms have "\<not> ready b" by (simp add: merges_def)
    then show ?thesis by (simp add: loadTransactions_def)
  next
    case (ErrorResult x)
    with e assms have "\<not> ready b" by (simp add: merges_def)
    then show ?thesis by (simp add: loadTransactions_def)
  next
    case (Rejected x)
    with e show ?thesis
      by (cases reset) (simp_all add: loadTransactions_def page_offset_def Let_def)
  qed
next
  case (ErrorResult x)
  then show ?thesis
    by (cases reset) (simp_all add: loadTransactions_def page_offset_def Let_def)
next
  case (Rejected x)
  then show ?thesis
    by (cases reset) (simp_all add: loadTransactions_def page_offset_def Let_def)
qed



text \<open>
  C5. After a load that merges, \<^verbatim>\<open>hasMore\<close> is true if and only if at least one of the two
  sources returned a full page of 25 records (the mapped lists have the length of the
  returned ones); a source that answered with an error object returned none. A load
  that does not merge leaves \<^verbatim>\<open>hasMore\<close> as it was.
\<close>

theorem loadTransactions_hasMore:
  "hasMoreTransactions (loadTransactions b reset st) =
     (if merges b reset st
      then length (page_expenses b reset st) = 25 \<or> length (page_mp b reset st) = 25
      else hasMoreTransactions st)
   \<and> length (map mapExpense (page_expenses b reset st)) = length (page_expenses b reset st)
   \<and> length (map mapMp (page_mp b reset st)) = length (page_mp b reset st)"
proof (cases "merges b reset st")
  case True
  then show ?thesis
    unfolding loadTransactions_merge[OF True] by (simp add: ITEMS_PER_PAGE_def)
next
  case False
  then show ?thesis
    unfolding loadTransactions_no_merge[OF False] by simp
qed

theorem loadTransactions_hasMore_witness:
  "merges paged_backend True example_state
   \<and> length (page_expenses paged_backend True example_state) = 25
   \<and> length (page_mp paged_backend True example_state) = 10
   \<and> hasMoreTransactions (loadTransactions paged_backend True example_state)"
proof -
  have m: "merges paged_backend True example_state"
    by (simp add: merges_def paged_backend_def)
  have a: "length (page_expenses paged_backend True example_state) = 25"
    by (simp add: page_expenses_def paged_backend_def page_offset_def ITEMS_PER_PAGE_def)
  have b: "length (page_mp paged_backend True example_state) = 10"
    by (simp add: page_mp_def paged_backend_def page_offset_def ITEMS_PER_PAGE_def)
  from loadTransactions_hasMore[of paged_backend True example_state] m a b show ?thesis by simp
qed

text \<open>
  C5 does not hold after every load: at the first load of a session whose first query
  fails, \<^verbatim>\<open>hasMore\<close> keeps its initial value \<open>True\<close>, and no source returned a full
  page.
\<close>

theorem loadTransactions_hasMore_counterexample:
  "\<not> (hasMoreTransactions (loadTransactions failing_backend True example_state) =
        (length (page_expenses failing_backend True example_state) = 25
         \<or> length (page_mp failing_backend True example_state) = 25))"
proof -
  have n: "\<not> merges failing_backend True example_state"
    by (simp add: merges_def failing_backend_def)
  have a: "page_expenses failing_backend True example_state = []"
    by (simp add: page_expenses_def failing_backend_def)
  have b: "length (page_mp failing_backend True example_state) = 1"
    by (simp add: page_mp_def failing_backend_def page_offset_def ITEMS_PER_PAGE_def
        example_messages_def)
  show ?thesis
    unfolding loadTransactions_no_merge[OF n] a b by (simp add: example_state_def)
qed

lemma mapMp_amount:
  "tx_amount (mapMp row) = (if isOutgoing row then - \<bar>mp_amount row\<bar> else \<bar>mp_amount row\<bar>)"
  by (simp add: mapMp_def Let_def)

lemma mapMp_amount_sign:
  "(isOutgoing row \<longrightarrow> tx_amount (mapMp row) \<le> 0) \<and> (\<not> isOutgoing row \<longrightarrow> 0 \<le> tx_amount (mapMp row))"
  by (simp add: mapMp_amount)

lemma payment_sent_amount:
  "tx_amount (mapMp \<lparr>mp_id = ''1'', mp_email_subject = None, mp_description = Some ''Cafe'',
      mp_amount = 10, mp_type = Some ''payment_sent'', mp_category = None,
      mp_received_at = Some 3000\<rparr>) = - 10"
  by (simp add: mapMp_amount isOutgoing_def type_includes_def)

lemma mapMp_example_message:
  "map mapMp example_messages =
     [\<lparr>tx_id = ''mp_1'', tx_icon = ''ArrowUpRight'', tx_label = ''Cafe'', tx_amount = - 10,
       tx_date = Some 3000, tx_source = Some mercadopago\<rparr>]"
  by (simp add: example_messages_def mapMp_def row_category_def row_description_def trim_def
      is_space_def isOutgoing_def type_includes_def Let_def)

text \<open>
  C1. The mapped amount of a message row is \<open>- |stored|\<close> when the row is classified as
  outgoing and \<open>|stored|\<close> otherwise (\<open>mapMp_amount\<close>), and \<^verbatim>\<open>payment_sent\<close> with 10 gives
  -10 (\<open>payment_sent_amount\<close>). The incoming types do not all come out positive: a row
  of type \<^verbatim>\<open>payment_received\<close> (incoming in the parser's documentation, labelled
  \<^verbatim>\<open>Pago recibido\<close> in the table above) with stored amount 10 contains the word
  \<^verbatim>\<open>payment\<close>, is classified as outgoing and is mapped to the amount -10.
\<close>

theorem mapMp_payment_received_negative:
  "isOutgoing \<lparr>mp_id = ''2'', mp_email_subject = None, mp_description = None, mp_amount = 10,
      mp_type = Some ''payment_received'', mp_category = None, mp_received_at = Some 3000\<rparr>
   \<and> tx_amount (mapMp \<lparr>mp_id = ''2'', mp_email_subject = None, mp_description = None,
      mp_amount = 10, mp_type = Some ''payment_received'', mp_category = None,
      mp_received_at = Some 3000\<rparr>) = - 10"
  by (simp add: mapMp_amount isOutgoing_def type_includes_def)

lemma incoming_types_amount:
  assumes "mp_type row \<in> {Some ''refund_received'', Some ''deposit'', Some ''transfer_received''}"
    and "mp_email_subject row = None"
  shows "tx_amount (mapMp row) = \<bar>mp_amount row\<bar>"
  using assms by (auto simp: mapMp_amount isOutgoing_def type_includes_def subject_includes_def)

lemma loadTransactions_distinct_ids:
  assumes "merges b reset st"
    and "\<not> reset \<Longrightarrow> distinct (map tx_id (transactionsList st))"
    and "distinct (map tx_id (map mapExpense (page_expenses b reset st) @ map mapMp (page_mp b reset st)))"
  shows "distinct (map tx_id (transactionsList (loadTransactions b reset st)))"
proof -
  let ?page = "map mapExpense (page_expenses b reset st) @ map mapMp (page_mp b reset st)"
  let ?all = "array_sort by_date_desc ?page"
  have all: "distinct (map tx_id ?all)"
    using assms(3) by (simp only: distinct_map_array_sort)
  show ?thesis
  proof (cases reset)
    case True
    with all show ?thesis
      unfolding loadTransactions_merge[OF assms(1)] by (simp add: Let_def)
  next
    case False
    let ?prev = "transactionsList st"
    let ?new = "filter (\<lambda>t. tx_id t \<notin> set (map tx_id ?prev)) ?all"
    have "distinct (map tx_id ?new)"
      using all by (rule distinct_map_filter)
    moreover have "set (map tx_id ?prev) \<inter> set (map tx_id ?new) = {}"
      by (auto simp: image_iff)
    ultimately have "distinct (map tx_id (?prev @ ?new))"
      using assms(2)[OF False] by simp
    then have "distinct (map tx_id (array_sort by_date_desc (?prev @ ?new)))"
      by (simp only: distinct_map_array_sort)
    with False show ?thesis
      unfolding loadTransactions_merge[OF assms(1)] by (simp add: Let_def)
  qed
qed

subsection \<open>Inserting\<close>

lemma mset_merged_sort: "mset (merged_sort xs) = mset xs"
  by (simp add: merged_sort_def mset_array_sort)

lemma map_enumerate_snd: "map (\<lambda>p. f (snd p)) (enumerate n xs) = map f xs"
  by (induction xs arbitrary: n) simp_all

lemma inserts_amounts:
  "map ei_amount (inserts p st) = map (\<lambda>item. - \<bar>pi_price item\<bar>) (pendingItems st)"
  by (simp add: inserts_def case_prod_unfold comp_def
      map_enumerate_snd[of "\<lambda>item. - \<bar>pi_price item\<bar>"])

lemma newTransactions_amounts:
  "map tx_amount (newTransactions p st) = map (\<lambda>item. - \<bar>pi_price item\<bar>) (pendingItems st)"
  by (simp add: newTransactions_def case_prod_unfold comp_def
      map_enumerate_snd[of "\<lambda>item. - \<bar>pi_price item\<bar>"])

lemma newTransactions_labels:
  "map tx_label (newTransactions p st) = map pi_description (pendingItems st)"
  by (simp add: newTransactions_def case_prod_unfold comp_def map_enumerate_snd)

lemma savedTransactions_amounts: "map tx_amount (savedTransactions p data) = map er_amount data"
  by (simp add: savedTransactions_def case_prod_unfold comp_def map_enumerate_snd)

lemma ocr_new_items_fallback: "local_fallback p b st \<Longrightarrow> ocr_new_items p b st = newTransactions p st"
  by (simp add: local_fallback_def ocr_new_items_def split: if_splits response.splits)

lemma ocr_new_items_amounts:
  assumes "all_stored_as_sent b (inserts p st)"
  shows "map tx_amount (ocr_new_items p b st) = map (\<lambda>item. - \<bar>pi_price item\<bar>) (pendingItems st)"
proof (cases "ready b")
  case False
  then show ?thesis by (simp add: ocr_new_items_def newTransactions_amounts)
next
  case True
  show ?thesis
  proof (cases "insert_expenses b (inserts p st)")
    case (Data data)
    with True assms have "map er_amount data = map ei_amount (inserts p st)"
      by (simp add: all_stored_as_sent_def)
    with True Data show ?thesis
      by (simp add: ocr_new_items_def savedTransactions_amounts inserts_amounts)
  next
    case (ErrorResult e)
    with True show ?thesis by (simp add: ocr_new_items_def newTransactions_amounts)
  next
    case (Rejected e)
    with True show ?thesis by (simp add: ocr_new_items_def newTransactions_amounts)
  qed
qed

text \<open>
  C7. Committing the staged items empties the pending list on every path and adds one
  transaction per staged item to the ledger. The rows sent to the store and the local
  transactions carry the amount \<open>- |price|\<close> of their item; when there is no store or the
  insert fails, the local transactions of the same items (same descriptions, same order)
  are the ones added; and when the store answers with the amounts it was sent, the added
  transactions have the amounts \<open>- |price|\<close>.
\<close>

theorem addOcrExpenses_commit:
  "(let st' = addOcrExpenses p b st; items = ocr_new_items p b st in
      pendingItems st' = []
    \<and> transactionsList st' = merged_sort (items @ transactionsList st)
    \<and> mset (transactionsList st') = mset items + mset (transactionsList st)
    \<and> map ei_amount (inserts p st) = map (\<lambda>item. - \<bar>pi_price item\<bar>) (pendingItems st)
    \<and> map tx_amount (newTransactions p st) = map (\<lambda>item. - \<bar>pi_price item\<bar>) (pendingItems st)
    \<and> map tx_label (newTransactions p st) = map pi_description (pendingItems st)
    \<and> (local_fallback p b st \<longrightarrow> items = newTransactions p st)
    \<and> (all_stored_as_sent b (inserts p st) \<longrightarrow>
         map tx_amount items = map (\<lambda>item. - \<bar>pi_price item\<bar>) (pendingItems st)))"
  unfolding Let_def
  by (simp add: addOcrExpenses_def mset_merged_sort inserts_amounts newTransactions_amounts
      newTransactions_labels ocr_new_items_fallback ocr_new_items_amounts)

theorem addOcrExpenses_commit_witness:
  "(let st = example_state\<lparr>pendingItems := [coffee]\<rparr>;
        failed = addOcrExpenses example_platform example_backend st;
        saved = addOcrExpenses example_platform echo_backend st
    in local_fallback example_platform example_backend st
     \<and> pendingItems failed = [] \<and> map tx_amount (transactionsList failed) = [- 4.5]
     \<and> map tx_label (transactionsList failed) = [''Coffee'']
     \<and> all_stored_as_sent echo_backend (inserts example_platform st)
     \<and> pendingItems saved = [] \<and> map tx_amount (transactionsList saved) = [- 4.5])"
proof -
  let ?st = "example_state\<lparr>pendingItems := [coffee]\<rparr>"
  have pend: "pendingItems ?st = [coffee]" and led: "transactionsList ?st = []"
    by (simp_all add: example_state_def)
  have fb: "local_fallback example_platform example_backend ?st"
    by (simp add: local_fallback_def example_backend_def)
  have echo: "all_stored_as_sent echo_backend (inserts example_platform ?st)"
    by (simp add: all_stored_as_sent_def echo_backend_def echo_row_def inserts_def pend)
  have one: "\<And>xs. length xs = 1 \<Longrightarrow> merged_sort xs = xs"
    by (auto simp: merged_sort_def array_sort_def length_Suc_conv)
  have len: "\<And>f (xs :: transaction list) v. map f xs = [v] \<Longrightarrow> length xs = 1"
    by auto
  note failed = addOcrExpenses_commit [of example_platform example_backend ?st, unfolded Let_def]
  note saved = addOcrExpenses_commit [of example_platform echo_backend ?st, unfolded Let_def]
  have a: "map tx_amount (ocr_new_items example_platform example_backend ?st) = [- 4.5]"
    using failed fb by (simp add: pend coffee_def)
  have l: "map tx_label (ocr_new_items example_platform example_backend ?st) = [''Coffee'']"
    using failed fb by (simp add: pend coffee_def)
  have a': "map tx_amount (ocr_new_items example_platform echo_backend ?st) = [- 4.5]"
    using saved echo by (simp add: pend coffee_def)
  show ?thesis
    unfolding Let_def
    using failed saved fb echo a l a' one[OF len[OF a]] one[OF len[OF a']]
    by (simp add: led)
qed

text \<open>
  C2. A merge keeps the ids of the ledger distinct when the ids of the page are
  (\<open>loadTransactions_distinct_ids\<close>). A commit of staged items does not: two staged items of
  the same description, committed within one millisecond while the insert into the store
  fails, both get the id \<^verbatim>\<open>1700000000000-Coffee\<close>, and the ledger then holds two
  entries of one id.
\<close>

theorem addOcrExpenses_duplicate_ids:
  "map tx_id
     (transactionsList
        (addOcrExpenses example_platform example_backend
           (example_state\<lparr>pendingItems := [coffee, coffee\<lparr>pi_id := ''ocr-1700000000000-1''\<rparr>]\<rparr>))) =
     [''1700000000000-Coffee'', ''1700000000000-Coffee'']
   \<and> \<not> distinct
        (map tx_id
           (transactionsList
              (addOcrExpenses example_platform example_backend
                 (example_state\<lparr>pendingItems := [coffee, coffee\<lparr>pi_id := ''ocr-1700000000000-1''\<rparr>]\<rparr>))))"
proof -
  have d: "decimal 1700000000000 = ''1700000000000''"
    by (simp add: decimal.simps)
  have ids: "map tx_id
     (transactionsList
        (addOcrExpenses example_platform example_backend
           (example_state\<lparr>pendingItems := [coffee, coffee\<lparr>pi_id := ''ocr-1700000000000-1''\<rparr>]\<rparr>))) =
     [''1700000000000-Coffee'', ''1700000000000-Coffee'']"
    by (simp add: addOcrExpenses_def ocr_new_items_def example_backend_def newTransactions_def
        example_state_def example_platform_def coffee_def merged_sort_def array_sort_def
        by_date_desc_def date_time_def ocr_date_def String_of_int_def d)
  show ?thesis unfolding ids by simp
qed

lemma manual_new_item_amount:
  assumes "stored_as_sent b (manual_insert st x)"
  shows "tx_amount (manual_new_item p b st x) = - \<bar>x\<bar>"
proof (cases "ready b")
  case False
  then show ?thesis by (simp add: manual_new_item_def manual_fallback_item_def)
next
  case True
  show ?thesis
  proof (cases "insert_expense b (manual_insert st x)")
    case (Data data)
    with True assms have "er_amount data = - \<bar>x\<bar>"
      by (simp add: stored_as_sent_def manual_insert_def)
    with True Data show ?thesis
      by (simp add: manual_new_item_def manual_saved_item_def)
  next
    case (ErrorResult e)
    with True show ?thesis by (simp add: manual_new_item_def manual_fallback_item_def)
  next
    case (Rejected e)
    with True show ?thesis by (simp add: manual_new_item_def manual_fallback_item_def)
  qed
qed

text \<open>
  C10. A finite amount \<open>x\<close> typed into the manual form is sent to the store and written to
  the local fallback item as \<open>- |x|\<close>, zero and positive inputs included; one item is added
  to the ledger, with the amount \<open>- |x|\<close> whenever the store is absent, fails, or answers
  with the amount it was sent, so the item is never an income. A parsed amount that is
  not finite (\<^verbatim>\<open>NaN\<close>, \<^verbatim>\<open>Infinity\<close>, \<^verbatim>\<open>-Infinity\<close>) leaves the whole state as it was, and
  nothing else is rejected.
\<close>

theorem addManualExpense_forces_negative:
  "(case Number p (manualAmount st) of
      Finite x \<Rightarrow>
        (let st' = addManualExpense p b st; item = manual_new_item p b st x in
           transactionsList st' = merged_sort (item # transactionsList st)
         \<and> mset (transactionsList st') = add_mset item (mset (transactionsList st))
         \<and> ei_amount (manual_insert st x) = - \<bar>x\<bar>
         \<and> tx_amount (manual_fallback_item p st x) = - \<bar>x\<bar>
         \<and> (stored_as_sent b (manual_insert st x) \<longrightarrow> tx_amount item = - \<bar>x\<bar> \<and> tx_amount item \<le> 0))
    | _ \<Rightarrow> addManualExpense p b st = st)"
proof (cases "Number p (manualAmount st)")
  case (Finite x)
  have "stored_as_sent b (manual_insert st x) \<Longrightarrow> tx_amount (manual_new_item p b st x) \<le> 0"
    by (simp add: manual_new_item_amount)
  with Finite show ?thesis
    by (simp add: addManualExpense_def Let_def mset_merged_sort manual_insert_def
        manual_fallback_item_def manual_new_item_amount)
qed (simp_all add: addManualExpense_def Let_def)

theorem addManualExpense_forces_negative_witness:
  "(let typed = example_state\<lparr>manualAmount := ''12.50'', manualDescription := '' Lunch ''\<rparr>;
        zero = example_state\<lparr>manualAmount := ''0''\<rparr>;
        bad = example_state\<lparr>manualAmount := ''abc''\<rparr>;
        inf = example_state\<lparr>manualAmount := ''Infinity''\<rparr>
    in stored_as_sent example_backend (manual_insert typed 12.5)
     \<and> map tx_amount (transactionsList (addManualExpense example_platform example_backend typed)) =
         [- 12.5]
     \<and> stored_as_sent echo_backend (manual_insert typed 12.5)
     \<and> map tx_amount (transactionsList (addManualExpense example_platform echo_backend typed)) =
         [- 12.5]
     \<and> map tx_amount (transactionsList (addManualExpense example_platform example_backend zero)) =
         [0]
     \<and> addManualExpense example_platform example_backend bad = bad
     \<and> addManualExpense example_platform example_backend inf = inf)"
proof -
  let ?typed = "example_state\<lparr>manualAmount := ''12.50'', manualDescription := '' Lunch ''\<rparr>"
  let ?zero = "example_state\<lparr>manualAmount := ''0''\<rparr>"
  let ?bad = "example_state\<lparr>manualAmount := ''abc''\<rparr>"
  let ?inf = "example_state\<lparr>manualAmount := ''Infinity''\<rparr>"
  have n1: "Number example_platform (manualAmount ?typed) = Finite 12.5"
    and n2: "Number example_platform (manualAmount ?zero) = Finite 0"
    and n3: "Number example_platform (manualAmount ?bad) = NaN"
    and n4: "Number example_platform (manualAmount ?inf) = Infinity"
    by (simp_all add: example_platform_def example_state_def)
  have led: "transactionsList ?typed = []" "transactionsList ?zero = []"
    by (simp_all add: example_state_def)
  have s1: "stored_as_sent example_backend (manual_insert ?typed 12.5)"
    and s2: "stored_as_sent echo_backend (manual_insert ?typed 12.5)"
    and s3: "stored_as_sent example_backend (manual_insert ?zero 0)"
    by (simp_all add: stored_as_sent_def example_backend_def echo_backend_def echo_row_def)
  have one: "\<And>t. merged_sort [t] = [t]"
    by (simp add: merged_sort_def array_sort_def)
  show ?thesis
    unfolding Let_def
    using addManualExpense_forces_negative [where p = example_platform and st = "?typed" and b = example_backend]
      addManualExpense_forces_negative [where p = example_platform and st = "?typed" and b = echo_backend]
      addManualExpense_forces_negative [where p = example_platform and st = "?zero" and b = example_backend]
      addManualExpense_forces_negative [where p = example_platform and st = "?bad" and b = example_backend]
      addManualExpense_forces_negative [where p = example_platform and st = "?inf" and b = example_backend]
    unfolding n1 n2 n3 n4 Let_def
    using s1 s2 s3 by (simp add: led one)
qed

subsection \<open>Merchant ranking\<close>






























end
